theory Spec2Isabelle
  imports Complex_Main
begin

section \<open>Numbers and errors\<close>

text \<open>
  The trade profits are SQLite \<open>REAL\<close> values, Python floats. They are modelled by the
  real numbers: sums, quotients and comparisons are exact, so the representation error
  of binary floating point is outside this development. Counters are natural numbers.

  Every Python exception the analytics code can meet is a value of \<open>error\<close>, and a
  computation that may raise returns \<open>error + 'a\<close>, with \<open>Inl\<close> for the exception.
\<close>

datatype error = ZeroDivisionError | StatisticsError | ValueError | KeyError | IndexError

definition bind_err :: "error + 'a \<Rightarrow> ('a \<Rightarrow> error + 'b) \<Rightarrow> error + 'b" where
  "bind_err m f = (case m of Inl e \<Rightarrow> Inl e | Inr x \<Rightarrow> f x)"

text \<open>Python's \<open>x / y\<close>: raises on a zero divisor.\<close>

definition py_div :: "real \<Rightarrow> real \<Rightarrow> error + real" where
  "py_div x y = (if y = 0 then Inl ZeroDivisionError else Inr (x / y))"

text \<open>
  Python's \<open>round(x, ndigits)\<close>: the multiple of \<open>10 ^ -ndigits\<close> nearest to the exact
  value of \<open>x\<close>, a tie going to the even neighbour.
\<close>

definition py_round :: "real \<Rightarrow> nat \<Rightarrow> real" where
  "py_round x ndigits =
     (let s = x * 10 ^ ndigits;
          f = \<lfloor>s\<rfloor>;
          d = s - of_int f;
          r = (if d < 1 / 2 then f
               else if 1 / 2 < d then f + 1
               else if even f then f else f + 1)
      in of_int r / 10 ^ ndigits)"

text \<open>
  \<open>statistics.stdev\<close>: the square root of the sample variance (divisor \<open>n - 1\<close>);
  it raises \<open>StatisticsError\<close> on fewer than two data points.
\<close>

definition statistics_stdev :: "real list \<Rightarrow> error + real" where
  "statistics_stdev xs =
     (if length xs < 2 then Inl StatisticsError
      else let n = length xs;
               m = sum_list xs / real n;
               ss = sum_list (map (\<lambda>x. (x - m)\<^sup>2) xs)
           in Inr (sqrt (ss / real (n - 1))))"

section \<open>Data model\<close>

text \<open>
  A row of table \<open>trades\<close>, as the dictionary \<open>dict(r)\<close>. The analytics code reads the
  four columns below only; \<open>pair\<close>, \<open>open_time\<close> and \<open>close_time\<close> are nullable text
  (\<open>None\<close> is SQL \<open>NULL\<close>).
\<close>

record trade =
  pair :: "string option"
  open_time :: "string option"
  close_time :: "string option"
  profit :: real

text \<open>A row of table \<open>equity_snapshots\<close>.\<close>

record snapshot =
  snap_id :: nat
  account_id :: nat
  balance :: "real option"
  equity :: "real option"
  snapshot_time :: "string option"

text \<open>The dictionary returned by \<open>compute_stats\<close> for a non-empty trade list.\<close>

record stats =
  total_trades :: nat
  win_count :: nat
  loss_count :: nat
  win_rate :: real
  avg_win :: real
  avg_loss :: real
  profit_factor :: real
  expectancy :: real
  sharpe_ratio :: real
  max_consec_wins :: nat
  max_consec_losses :: nat
  total_profit :: real
  max_drawdown :: real
  gross_profit :: real
  gross_loss :: real

section \<open>\<open>compute_stats\<close>\<close>

text \<open>The loop variables of the streak scan.\<close>

record streak =
  best_w :: nat
  best_l :: nat
  cur_w :: nat
  cur_l :: nat

definition streak_step :: "streak \<Rightarrow> real \<Rightarrow> streak" where
  "streak_step s p =
     (if p > 0
      then \<lparr>best_w = max (best_w s) (cur_w s + 1), best_l = best_l s,
            cur_w = cur_w s + 1, cur_l = 0\<rparr>
      else \<lparr>best_w = best_w s, best_l = max (best_l s) (cur_l s + 1),
            cur_w = 0, cur_l = cur_l s + 1\<rparr>)"

definition streak_scan :: "real list \<Rightarrow> streak" where
  "streak_scan profits =
     foldl streak_step \<lparr>best_w = 0, best_l = 0, cur_w = 0, cur_l = 0\<rparr> profits"

text \<open>The loop variables of the drawdown scan.\<close>

record drawdown =
  peak :: real
  max_dd :: real
  running :: real

definition drawdown_step :: "drawdown \<Rightarrow> real \<Rightarrow> drawdown" where
  "drawdown_step s p =
     (let running' = running s + p;
          peak' = (if running' > peak s then running' else peak s);
          dd = peak' - running';
          max_dd' = (if dd > max_dd s then dd else max_dd s)
      in \<lparr>peak = peak', max_dd = max_dd', running = running'\<rparr>)"

definition drawdown_scan :: "real list \<Rightarrow> drawdown" where
  "drawdown_scan profits = foldl drawdown_step \<lparr>peak = 0, max_dd = 0, running = 0\<rparr> profits"

text \<open>
  \<open>compute_stats\<close>. The empty dictionary returned for no trades is \<open>None\<close>. Each
  division and the call of \<open>statistics.stdev\<close> may raise, so the result is in
  \<open>error + _\<close>.
\<close>

definition compute_stats :: "trade list \<Rightarrow> error + stats option" where
  "compute_stats trades =
     (if trades = [] then Inr None
      else
        let profits = map profit trades;
            wins = filter (\<lambda>p. p > 0) profits;
            losses = filter (\<lambda>p. p < 0) profits;
            total = length profits;
            win_count = length wins;
            loss_count = length losses
        in
        bind_err (if total > 0
                  then bind_err (py_div (real win_count) (real total)) (\<lambda>q. Inr (q * 100))
                  else Inr 0) (\<lambda>win_rate.
        bind_err (if wins \<noteq> [] then py_div (sum_list wins) (real (length wins))
                  else Inr 0) (\<lambda>avg_win.
        bind_err (if losses \<noteq> [] then py_div (sum_list losses) (real (length losses))
                  else Inr 0) (\<lambda>avg_loss.
        let gross_profit = sum_list wins;
            gross_loss = \<bar>sum_list losses\<bar>
        in
        bind_err (if gross_loss > 0 then py_div gross_profit gross_loss
                  else Inr 0) (\<lambda>profit_factor.
        let expectancy = (win_rate / 100 * avg_win) + ((1 - win_rate / 100) * avg_loss)
        in
        bind_err (if length profits > 1
                  then bind_err (py_div (sum_list profits) (real (length profits))) (\<lambda>avg_ret.
                       bind_err (statistics_stdev profits) (\<lambda>std_ret.
                       if std_ret > 0 then py_div avg_ret std_ret else Inr 0))
                  else Inr 0) (\<lambda>sharpe.
        let st = streak_scan profits;
            dd = drawdown_scan profits
        in
        Inr (Some \<lparr>total_trades = total,
                   win_count = win_count,
                   loss_count = loss_count,
                   win_rate = py_round win_rate 1,
                   avg_win = py_round avg_win 2,
                   avg_loss = py_round avg_loss 2,
                   profit_factor = py_round profit_factor 2,
                   expectancy = py_round expectancy 2,
                   sharpe_ratio = py_round sharpe 2,
                   max_consec_wins = best_w st,
                   max_consec_losses = best_l st,
                   total_profit = py_round (sum_list profits) 2,
                   max_drawdown = py_round (max_dd dd) 2,
                   gross_profit = py_round gross_profit 2,
                   gross_loss = py_round gross_loss 2\<rparr>)))))))"

section \<open>Timestamps\<close>

text \<open>
  \<open>datetime.strptime(s, "%Y-%m-%d %H:%M:%S")\<close> is library code. Its model follows
  CPython's \<open>_strptime\<close>: the format becomes a regular expression, one group of ordered
  alternatives per directive and \<open>\s+\<close> for the blank; \<open>re.match\<close> takes the first
  match a backtracking search finds; the match has to end where the string ends; the
  fields have to form a date and time that exist. Every failure is a \<open>ValueError\<close>.
  Strings are lists of 8-bit characters, so \<open>\d\<close> is an ASCII digit and \<open>\s\<close> one of the
  white-space characters below code point 256.
\<close>

type_synonym cls = "char \<Rightarrow> bool"

definition between :: "char \<Rightarrow> char \<Rightarrow> cls" where
  "between lo hi c = ((of_char lo :: nat) \<le> of_char c \<and> (of_char c :: nat) \<le> of_char hi)"

definition is_digit :: cls where
  "is_digit = between CHR ''0'' CHR ''9''"

definition is_space :: cls where
  "is_space c = ((of_char c :: nat) \<in> {9, 10, 11, 12, 13, 28, 29, 30, 31, 32, 133, 160})"

definition lit :: "char \<Rightarrow> cls" where
  "lit a c = (c = a)"

datatype item = Grp "cls list list" | Lit char | Spaces

definition re_Y :: "cls list list" where
  "re_Y = [[is_digit, is_digit, is_digit, is_digit]]"

definition re_m :: "cls list list" where
  "re_m = [[lit CHR ''1'', between CHR ''0'' CHR ''2''],
           [lit CHR ''0'', between CHR ''1'' CHR ''9''],
           [between CHR ''1'' CHR ''9'']]"

definition re_d :: "cls list list" where
  "re_d = [[lit CHR ''3'', between CHR ''0'' CHR ''1''],
           [between CHR ''1'' CHR ''2'', is_digit],
           [lit CHR ''0'', between CHR ''1'' CHR ''9''],
           [between CHR ''1'' CHR ''9''],
           [lit CHR '' '', between CHR ''1'' CHR ''9'']]"

definition re_H :: "cls list list" where
  "re_H = [[lit CHR ''2'', between CHR ''0'' CHR ''3''],
           [between CHR ''0'' CHR ''1'', is_digit],
           [is_digit]]"

definition re_M :: "cls list list" where
  "re_M = [[between CHR ''0'' CHR ''5'', is_digit],
           [is_digit]]"

definition re_S :: "cls list list" where
  "re_S = [[lit CHR ''6'', between CHR ''0'' CHR ''1''],
           [between CHR ''0'' CHR ''5'', is_digit],
           [is_digit]]"

definition strptime_format :: "item list" where
  "strptime_format =
     [Grp re_Y, Lit CHR ''-'', Grp re_m, Lit CHR ''-'', Grp re_d, Spaces,
      Grp re_H, Lit CHR '':'', Grp re_M, Lit CHR '':'', Grp re_S]"

text \<open>One alternative against the front of a string: the text matched and the rest.\<close>

fun match_seq :: "cls list \<Rightarrow> string \<Rightarrow> (string \<times> string) option" where
  "match_seq [] s = Some ([], s)"
| "match_seq (c # cs) [] = None"
| "match_seq (c # cs) (x # xs) =
     (if c x then map_option (\<lambda>(m, r). (x # m, r)) (match_seq cs xs) else None)"

definition match_group :: "cls list list \<Rightarrow> string \<Rightarrow> (string \<times> string) list" where
  "match_group alts s = List.map_filter (\<lambda>a. match_seq a s) alts"

text \<open>The rests of a string after one or more white-space characters, the longest run first.\<close>

fun spaces_splits :: "string \<Rightarrow> string list" where
  "spaces_splits [] = []"
| "spaces_splits (x # xs) = (if is_space x then spaces_splits xs @ [xs] else [])"

text \<open>All matches of a pattern at the front of a string, in the order backtracking finds them.\<close>

fun match_items :: "item list \<Rightarrow> string \<Rightarrow> (string list \<times> string) list" where
  "match_items [] s = [([], s)]"
| "match_items (Lit c # its) s =
     (case s of [] \<Rightarrow> [] | x # xs \<Rightarrow> if x = c then match_items its xs else [])"
| "match_items (Spaces # its) s = concat (map (match_items its) (spaces_splits s))"
| "match_items (Grp alts # its) s =
     concat (map (\<lambda>(m, r). map (\<lambda>(gs, r'). (m # gs, r')) (match_items its r))
                 (match_group alts s))"

definition digit_val :: "char \<Rightarrow> nat" where
  "digit_val c = of_char c - 48"

text \<open>\<open>int(s)\<close> on the text of a group: digits, after a blank for a one-digit day.\<close>

definition py_int :: "string \<Rightarrow> nat" where
  "py_int s = foldl (\<lambda>n c. 10 * n + digit_val c) 0 (dropWhile is_space s)"

record datetime =
  year :: nat
  month :: nat
  day :: nat
  hour :: nat
  minute :: nat
  second :: nat

definition is_leap :: "nat \<Rightarrow> bool" where
  "is_leap y = (y mod 4 = 0 \<and> (y mod 100 \<noteq> 0 \<or> y mod 400 = 0))"

definition month_lengths :: "nat list" where
  "month_lengths = [31, 28, 31, 30, 31, 30, 31, 31, 30, 31, 30, 31]"

definition days_in_month :: "nat \<Rightarrow> nat \<Rightarrow> nat" where
  "days_in_month y m = (if m = 2 \<and> is_leap y then 29 else month_lengths ! (m - 1))"

definition days_before_year :: "nat \<Rightarrow> nat" where
  "days_before_year y = (let y' = y - 1 in y' * 365 + y' div 4 - y' div 100 + y' div 400)"

definition days_before_month :: "nat \<Rightarrow> nat \<Rightarrow> nat" where
  "days_before_month y m =
     sum_list (take (m - 1) month_lengths) + (if m > 2 \<and> is_leap y then 1 else 0)"

text \<open>\<open>datetime.weekday()\<close>: Monday is 0.\<close>

definition weekday :: "datetime \<Rightarrow> nat" where
  "weekday dt =
     (days_before_year (year dt) + days_before_month (year dt) (month dt) + day dt + 6) mod 7"

definition strptime :: "string \<Rightarrow> error + datetime" where
  "strptime data_string =
     (case match_items strptime_format data_string of
        [] \<Rightarrow> Inl ValueError
      | (gs, rest) # _ \<Rightarrow>
          if rest \<noteq> [] then Inl ValueError
          else (case map py_int gs of
                  [y, m, d, H, M, S] \<Rightarrow>
                    if 1 \<le> y \<and> y \<le> 9999 \<and> 1 \<le> m \<and> m \<le> 12 \<and> 1 \<le> d
                       \<and> d \<le> days_in_month y m \<and> H < 24 \<and> M < 60 \<and> S < 60
                    then Inr \<lparr>year = y, month = m, day = d, hour = H, minute = M, second = S\<rparr>
                    else Inl ValueError
                | _ \<Rightarrow> Inl ValueError))"

text \<open>\<open>str(n)\<close> for a natural number.\<close>

fun py_str :: "nat \<Rightarrow> string" where
  "py_str n =
     (if n < 10 then [''0123456789'' ! n]
      else py_str (n div 10) @ [''0123456789'' ! (n mod 10)])"

declare py_str.simps [simp del]

section \<open>The report of \<open>api_stats\<close>\<close>

text \<open>\<open>d.get(k, dflt)\<close>, \<open>d[k]\<close> and \<open>xs[i]\<close> for \<open>i \<ge> 0\<close>.\<close>

definition dict_get :: "('k \<rightharpoonup> 'v) \<Rightarrow> 'k \<Rightarrow> 'v \<Rightarrow> 'v" where
  "dict_get d k dflt = (case d k of None \<Rightarrow> dflt | Some v \<Rightarrow> v)"

definition dict_item :: "('k \<rightharpoonup> 'v) \<Rightarrow> 'k \<Rightarrow> error + 'v" where
  "dict_item d k = (case d k of None \<Rightarrow> Inl KeyError | Some v \<Rightarrow> Inr v)"

definition list_item :: "'a list \<Rightarrow> nat \<Rightarrow> error + 'a" where
  "list_item xs i = (if i < length xs then Inr (xs ! i) else Inl IndexError)"

text \<open>
  A \<open>try: ... except: pass\<close> around an update of a dictionary: an exception leaves the
  dictionary as it was.
\<close>

definition except_pass :: "'a \<Rightarrow> error + 'a \<Rightarrow> 'a" where
  "except_pass old r = (case r of Inl e \<Rightarrow> old | Inr new \<Rightarrow> new)"

subsection \<open>Equity curve\<close>

record curve_point =
  p_time :: "string option"
  p_balance :: "real option"
  p_equity :: "real option"

definition equity_curve :: "snapshot list \<Rightarrow> curve_point list" where
  "equity_curve snaps =
     map (\<lambda>s. \<lparr>p_time = snapshot_time s, p_balance = balance s, p_equity = equity s\<rparr>) snaps"

subsection \<open>Calendar and monthly profit\<close>

definition cal_step :: "(string \<rightharpoonup> real) \<Rightarrow> trade \<Rightarrow> (string \<rightharpoonup> real)" where
  "cal_step cal t =
     (let day = (case close_time t of
                   None \<Rightarrow> None
                 | Some ct \<Rightarrow> if ct \<noteq> [] then Some (take 10 ct) else None)
      in case day of
           None \<Rightarrow> cal
         | Some d \<Rightarrow> if d \<noteq> [] then cal(d \<mapsto> py_round (dict_get cal d 0 + profit t) 2) else cal)"

definition calendar :: "trade list \<Rightarrow> (string \<rightharpoonup> real)" where
  "calendar trades = foldl cal_step Map.empty trades"

definition monthly_step :: "(string \<rightharpoonup> real) \<Rightarrow> trade \<Rightarrow> (string \<rightharpoonup> real)" where
  "monthly_step monthly t =
     (case close_time t of
        None \<Rightarrow> monthly
      | Some ct \<Rightarrow>
          if ct \<noteq> []
          then let mon = take 7 ct
               in monthly(mon \<mapsto> py_round (dict_get monthly mon 0 + profit t) 2)
          else monthly)"

definition monthly :: "trade list \<Rightarrow> (string \<rightharpoonup> real)" where
  "monthly trades = foldl monthly_step Map.empty trades"

subsection \<open>Hours and days\<close>

definition hours_init :: "string \<rightharpoonup> real" where
  "hours_init = foldl (\<lambda>d h. d(py_str h \<mapsto> 0)) Map.empty [0..<24]"

definition hours_try :: "(string \<rightharpoonup> real) \<Rightarrow> trade \<Rightarrow> string \<Rightarrow> error + (string \<rightharpoonup> real)" where
  "hours_try hours t ot =
     bind_err (strptime (take 19 ot)) (\<lambda>dt.
     let h = py_str (hour dt) in
     bind_err (dict_item hours h) (\<lambda>v.
     Inr (hours(h \<mapsto> py_round (v + profit t) 2))))"

definition hours_step :: "(string \<rightharpoonup> real) \<Rightarrow> trade \<Rightarrow> (string \<rightharpoonup> real)" where
  "hours_step hours t =
     (case open_time t of
        None \<Rightarrow> hours
      | Some ot \<Rightarrow> if ot \<noteq> [] then except_pass hours (hours_try hours t ot) else hours)"

definition hours :: "trade list \<Rightarrow> (string \<rightharpoonup> real)" where
  "hours trades = foldl hours_step hours_init trades"

definition day_names :: "string list" where
  "day_names = [''Mon'', ''Tue'', ''Wed'', ''Thu'', ''Fri'', ''Sat'', ''Sun'']"

definition days_init :: "string \<rightharpoonup> real" where
  "days_init = [''Mon'' \<mapsto> 0, ''Tue'' \<mapsto> 0, ''Wed'' \<mapsto> 0, ''Thu'' \<mapsto> 0, ''Fri'' \<mapsto> 0,
                ''Sat'' \<mapsto> 0, ''Sun'' \<mapsto> 0]"

definition days_try :: "(string \<rightharpoonup> real) \<Rightarrow> trade \<Rightarrow> string \<Rightarrow> error + (string \<rightharpoonup> real)" where
  "days_try days t ot =
     bind_err (strptime (take 19 ot)) (\<lambda>dt.
     let d = weekday dt in
     bind_err (list_item day_names d) (\<lambda>name.
     bind_err (dict_item days name) (\<lambda>v.
     Inr (days(name \<mapsto> py_round (v + profit t) 2)))))"

definition days_step :: "(string \<rightharpoonup> real) \<Rightarrow> trade \<Rightarrow> (string \<rightharpoonup> real)" where
  "days_step days t =
     (case open_time t of
        None \<Rightarrow> days
      | Some ot \<Rightarrow> if ot \<noteq> [] then except_pass days (days_try days t ot) else days)"

definition days :: "trade list \<Rightarrow> (string \<rightharpoonup> real)" where
  "days trades = foldl days_step days_init trades"

subsection \<open>By pair\<close>

record pair_stats =
  wins :: nat
  losses :: nat
  pair_profit :: real

definition pairs_step :: "(string \<rightharpoonup> pair_stats) \<Rightarrow> trade \<Rightarrow> error + (string \<rightharpoonup> pair_stats)" where
  "pairs_step pairs t =
     (let p = (case pair t of None \<Rightarrow> ''Unknown'' | Some s \<Rightarrow> if s \<noteq> [] then s else ''Unknown'');
          pairs1 = (if pairs p = None
                    then pairs(p \<mapsto> \<lparr>wins = 0, losses = 0, pair_profit = 0\<rparr>)
                    else pairs)
      in bind_err (dict_item pairs1 p) (\<lambda>e.
         let e1 = (if profit t > 0 then e\<lparr>wins := wins e + 1\<rparr> else e\<lparr>losses := losses e + 1\<rparr>)
         in Inr (pairs1(p \<mapsto> e1\<lparr>pair_profit := py_round (pair_profit e1 + profit t) 2\<rparr>))))"

fun pairs_from :: "(string \<rightharpoonup> pair_stats) \<Rightarrow> trade list \<Rightarrow> error + (string \<rightharpoonup> pair_stats)" where
  "pairs_from pairs [] = Inr pairs"
| "pairs_from pairs (t # ts) = bind_err (pairs_step pairs t) (\<lambda>pairs'. pairs_from pairs' ts)"

definition pairs :: "trade list \<Rightarrow> error + (string \<rightharpoonup> pair_stats)" where
  "pairs trades = pairs_from Map.empty trades"

subsection \<open>\<open>api_stats\<close>\<close>

record report =
  r_stats :: "stats option"
  r_equity_curve :: "curve_point list"
  r_calendar :: "string \<rightharpoonup> real"
  r_hours :: "string \<rightharpoonup> real"
  r_days :: "string \<rightharpoonup> real"
  r_pairs :: "string \<rightharpoonup> pair_stats"
  r_monthly :: "string \<rightharpoonup> real"
  r_trade_count :: nat

text \<open>
  The body of \<open>api_stats\<close> after the session check, as a function of the rows the two
  queries return: \<open>trades\<close> and \<open>snaps\<close>. \<open>Inl\<close> is an exception that leaves the handler.
\<close>

definition api_stats :: "trade list \<Rightarrow> snapshot list \<Rightarrow> error + report" where
  "api_stats trades snaps =
     bind_err (compute_stats trades) (\<lambda>stats.
     bind_err (pairs trades) (\<lambda>prs.
     Inr \<lparr>r_stats = stats,
          r_equity_curve = equity_curve snaps,
          r_calendar = calendar trades,
          r_hours = hours trades,
          r_days = days trades,
          r_pairs = prs,
          r_monthly = monthly trades,
          r_trade_count = length trades\<rparr>))"

section \<open>Notions used in the statements\<close>

text \<open>
  The sample standard deviation in the words of the specification: the square root of
  the sum of squared deviations from the mean over \<open>n - 1\<close>.
\<close>

definition spec_sample_stdev :: "real list \<Rightarrow> real" where
  "spec_sample_stdev xs =
     sqrt (sum_list (map (\<lambda>x. (x - sum_list xs / real (length xs))\<^sup>2) xs) / real (length xs - 1))"

text \<open>The trades of the scenario, with no pair and no timestamps.\<close>

definition scenario :: "trade list" where
  "scenario =
     map (\<lambda>p. \<lparr>pair = None, open_time = None, close_time = None, profit = p\<rparr>)
       [100, - 50, 50, - 20, - 10]"

text \<open>
  The drawdown in the words of the specification. \<open>spec_running ps k\<close> is the cumulative
  profit after \<open>k\<close> trades, \<open>spec_peak ps k\<close> the largest cumulative value seen in the
  first \<open>k\<close> steps, starting at 0, and \<open>spec_max_drawdown\<close> the maximum of peak minus
  running over the steps \<open>1 .. length ps\<close>.
\<close>

definition spec_running :: "real list \<Rightarrow> nat \<Rightarrow> real" where
  "spec_running ps k = sum_list (take k ps)"

definition spec_peak :: "real list \<Rightarrow> nat \<Rightarrow> real" where
  "spec_peak ps k = Max (set (0 # map (spec_running ps) [1..<Suc k]))"

definition spec_max_drawdown :: "real list \<Rightarrow> real" where
  "spec_max_drawdown ps =
     Max (set (map (\<lambda>k. spec_peak ps k - spec_running ps k) [1..<Suc (length ps)]))"

text \<open>The same maximum with the initial value 0 of \<open>max_dd\<close> included.\<close>

definition dd_so_far :: "real list \<Rightarrow> real" where
  "dd_so_far ps = Max (set (0 # map (\<lambda>k. spec_peak ps k - spec_running ps k) [1..<Suc (length ps)]))"

text \<open>A trade of profit zero, with no pair and no timestamps.\<close>

definition zero_trade :: trade where
  "zero_trade = \<lparr>pair = None, open_time = None, close_time = None, profit = 0\<rparr>"

text \<open>
  The calendar in the words of the specification. The key of a trade is the first 10
  characters of its \<open>close_time\<close>; a trade with no \<open>close_time\<close> (\<open>NULL\<close> or the empty
  string) has none. A bucket holds the running sum of the profits of its trades, in the
  order supplied, rounded to two decimals after every contribution; a key that no trade
  has is absent.
\<close>

definition spec_calendar_key :: "trade \<Rightarrow> string option" where
  "spec_calendar_key t =
     (case close_time t of
        None \<Rightarrow> None
      | Some ct \<Rightarrow> if ct = [] then None else Some (take 10 ct))"

definition spec_rounded_sum :: "real \<Rightarrow> real list \<Rightarrow> real" where
  "spec_rounded_sum start ps = foldl (\<lambda>acc p. py_round (acc + p) 2) start ps"

definition spec_calendar :: "trade list \<Rightarrow> (string \<rightharpoonup> real)" where
  "spec_calendar trades k =
     (let ps = map profit (filter (\<lambda>t. spec_calendar_key t = Some k) trades)
      in if ps = [] then None else Some (spec_rounded_sum 0 ps))"

text \<open>
  The bucket of the hours and of the days mapping that a trade contributes to, if any:
  the hour and the weekday name of its parsed \<open>open_time\<close>.
\<close>

definition hour_bucket :: "trade \<Rightarrow> string option" where
  "hour_bucket t =
     (case open_time t of
        None \<Rightarrow> None
      | Some ot \<Rightarrow>
          if ot = [] then None
          else (case strptime (take 19 ot) of
                  Inl e \<Rightarrow> None
                | Inr dt \<Rightarrow> Some (py_str (hour dt))))"

definition day_bucket :: "trade \<Rightarrow> string option" where
  "day_bucket t =
     (case open_time t of
        None \<Rightarrow> None
      | Some ot \<Rightarrow>
          if ot = [] then None
          else (case strptime (take 19 ot) of
                  Inl e \<Rightarrow> None
                | Inr dt \<Rightarrow> (case list_item day_names (weekday dt) of
                              Inl e \<Rightarrow> None
                            | Inr name \<Rightarrow> Some name)))"

text \<open>A trade whose \<open>open_time\<close> is no timestamp, and one opened on Friday 2024-01-05 at 10.\<close>

definition garbage_trade :: trade where
  "garbage_trade =
     \<lparr>pair = Some ''XAUUSD'', open_time = Some ''garbage'',
      close_time = Some ''2024-01-05 10:00:00'', profit = 12.5\<rparr>"

definition friday_trade :: trade where
  "friday_trade =
     \<lparr>pair = Some ''XAUUSD'', open_time = Some ''2024-01-05 10:30:00.123'',
      close_time = Some ''2024-01-05 11:00:00'', profit = 12.5\<rparr>"

text \<open>
  The monthly mapping in the words of the specification: the key of a trade is the first
  7 characters of its \<open>close_time\<close>, a trade lacking \<open>close_time\<close> has none, and a bucket
  holds the running sum of its trades' profits, rounded to two decimals after every
  contribution.
\<close>

definition spec_monthly_key :: "trade \<Rightarrow> string option" where
  "spec_monthly_key t =
     (case close_time t of
        None \<Rightarrow> None
      | Some ct \<Rightarrow> if ct = [] then None else Some (take 7 ct))"

definition spec_monthly :: "trade list \<Rightarrow> (string \<rightharpoonup> real)" where
  "spec_monthly trades k =
     (let ps = map profit (filter (\<lambda>t. spec_monthly_key t = Some k) trades)
      in if ps = [] then None else Some (spec_rounded_sum 0 ps))"

section \<open>Properties of \<open>compute_stats\<close>\<close>

lemma py_round_0 [simp]: "py_round 0 n = 0"
  by (simp add: py_round_def)

text \<open>
  For a non-empty trade list no division raises: every guard of \<open>compute_stats\<close>
  covers its divisor, and the function returns the summary below.
\<close>

lemma compute_stats_unfold:
  assumes "trades \<noteq> []"
  shows "compute_stats trades =
    (let profits = map profit trades;
         wins = filter (\<lambda>p. p > 0) profits;
         losses = filter (\<lambda>p. p < 0) profits;
         sd = spec_sample_stdev profits
     in Inr (Some \<lparr>total_trades = length trades,
                   win_count = length wins,
                   loss_count = length losses,
                   win_rate = py_round (real (length wins) / real (length trades) * 100) 1,
                   avg_win = py_round (if wins \<noteq> [] then sum_list wins / real (length wins) else 0) 2,
                   avg_loss = py_round (if losses \<noteq> [] then sum_list losses / real (length losses) else 0) 2,
                   profit_factor = py_round (if \<bar>sum_list losses\<bar> > 0 then sum_list wins / \<bar>sum_list losses\<bar> else 0) 2,
                   expectancy = py_round ((real (length wins) / real (length trades) * 100 / 100
                                 * (if wins \<noteq> [] then sum_list wins / real (length wins) else 0))
                               + ((1 - real (length wins) / real (length trades) * 100 / 100)
                                 * (if losses \<noteq> [] then sum_list losses / real (length losses) else 0))) 2,
                   sharpe_ratio = py_round (if length trades > 1 \<and> sd > 0
                        then sum_list profits / real (length trades) / sd else 0) 2,
                   max_consec_wins = best_w (streak_scan profits),
                   max_consec_losses = best_l (streak_scan profits),
                   total_profit = py_round (sum_list profits) 2,
                   max_drawdown = py_round (max_dd (drawdown_scan profits)) 2,
                   gross_profit = py_round (sum_list wins) 2,
                   gross_loss = py_round \<bar>sum_list losses\<bar> 2\<rparr>))"
proof -
  define ps where "ps = map profit trades"
  have len: "length trades = length ps" and ne: "ps \<noteq> []"
    using assms by (simp_all add: ps_def)
  show ?thesis
    unfolding compute_stats_def using assms
    apply (simp only: if_False ps_def [symmetric] len)
    apply (simp add: bind_err_def py_div_def statistics_stdev_def spec_sample_stdev_def ne Let_def)
    done
qed


lemma filter_map_profit:
  "filter P (map profit trades) = map profit (filter (\<lambda>t. P (profit t)) trades)"
  by (induction trades) auto

text \<open>
  C1. The rule of the claim, a loss iff \<open>profit \<le> 0\<close>, is the one the streak scan and the
  per-pair counters follow, but not the one \<open>loss_count\<close> follows: \<open>losses\<close> is filtered with
  \<open>p < 0\<close>. On a single trade of profit zero \<open>compute_stats\<close> returns \<open>win_count = 0\<close> and
  \<open>loss_count = 0\<close> with \<open>total_trades = 1\<close>, so the counts do not add up to the total,
  while \<open>max_consec_losses = 1\<close> and the pair's \<open>losses = 1\<close> count the same trade as a loss.
\<close>

theorem C1_zero_profit_trade_evaluated:
  "compute_stats [zero_trade] =
     Inr (Some \<lparr>total_trades = 1, win_count = 0, loss_count = 0, win_rate = 0, avg_win = 0,
                avg_loss = 0, profit_factor = 0, expectancy = 0, sharpe_ratio = 0,
                max_consec_wins = 0, max_consec_losses = 1, total_profit = 0,
                max_drawdown = 0, gross_profit = 0, gross_loss = 0\<rparr>)
   \<and> pairs [zero_trade] = Inr [''Unknown'' \<mapsto> \<lparr>wins = 0, losses = 1, pair_profit = 0\<rparr>]"
  by (simp add: compute_stats_unfold zero_trade_def Let_def streak_scan_def streak_step_def
        drawdown_scan_def drawdown_step_def pairs_def pairs_step_def bind_err_def
        dict_item_def)

text \<open>
  C2 (as amended). For trades with profits \<open>[100, -50, 50, -20, -10]\<close> in this order,
  \<open>compute_stats\<close> returns \<open>max_consec_wins = 1\<close>, \<open>max_consec_losses = 2\<close>,
  \<open>total_profit = 70\<close>, \<open>win_count = 2\<close>, \<open>loss_count = 3\<close>, \<open>gross_profit = 150\<close>,
  \<open>gross_loss = 80\<close> and \<open>profit_factor = 1.88\<close>: the quotient \<open>1.875\<close> rounded to two
  decimals.
\<close>

theorem C2_scenario_rounded:
  assumes "map profit trades = [100, - 50, 50, - 20, - 10]"
  shows "\<exists>s. compute_stats trades = Inr (Some s)
           \<and> max_consec_wins s = 1 \<and> max_consec_losses s = 2
           \<and> total_profit s = 70 \<and> win_count s = 2 \<and> loss_count s = 3
           \<and> gross_profit s = 150 \<and> gross_loss s = 80
           \<and> profit_factor s = 1.88"
proof -
  from assms have "trades \<noteq> []" by auto
  then show ?thesis
    by (simp add: compute_stats_unfold assms Let_def streak_scan_def streak_step_def
          py_round_def)
qed

theorem C2_scenario_rounded_witness:
  "\<exists>s. compute_stats scenario = Inr (Some s) \<and> profit_factor s = 1.88 \<and> total_profit s = 70"
  using C2_scenario_rounded [of scenario] by (auto simp: scenario_def)

text \<open>C2 as stated fails: the returned \<open>profit_factor\<close> is not \<open>1.875\<close>.\<close>

theorem C2_profit_factor_counterexample:
  "(case compute_stats scenario of
      Inr (Some s) \<Rightarrow> profit_factor s \<noteq> 1.875
    | _ \<Rightarrow> False)"
  by (simp add: compute_stats_unfold scenario_def Let_def py_round_def)

subsection \<open>Drawdown\<close>


lemma spec_running_append: "k \<le> length ps \<Longrightarrow> spec_running (ps @ qs) k = spec_running ps k"
  by (simp add: spec_running_def)

lemma spec_peak_append: "k \<le> length ps \<Longrightarrow> spec_peak (ps @ qs) k = spec_peak ps k"
proof -
  assume k: "k \<le> length ps"
  have "map (spec_running (ps @ qs)) [1..<Suc k] = map (spec_running ps) [1..<Suc k]"
    using k by (intro map_cong refl spec_running_append) auto
  then show ?thesis by (simp add: spec_peak_def)
qed

lemma spec_peak_0: "spec_peak ps 0 = 0"
  by (simp add: spec_peak_def)

lemma spec_peak_Suc: "spec_peak ps (Suc k) = max (spec_peak ps k) (spec_running ps (Suc k))"
proof -
  have "set (0 # map (spec_running ps) [1..<Suc (Suc k)])
          = insert (spec_running ps (Suc k)) (set (0 # map (spec_running ps) [1..<Suc k]))"
    by auto
  then show ?thesis
    unfolding spec_peak_def by (simp only: Max_insert [OF finite_set] max.commute) simp
qed

lemma spec_peak_ge_running: "1 \<le> k \<Longrightarrow> spec_running ps k \<le> spec_peak ps k"
  unfolding spec_peak_def by (intro Max_ge) auto

lemma dd_so_far_snoc:
  "dd_so_far (ps @ [x])
     = max (dd_so_far ps)
           (spec_peak (ps @ [x]) (Suc (length ps)) - spec_running (ps @ [x]) (Suc (length ps)))"
proof -
  let ?f = "\<lambda>qs k. spec_peak qs k - spec_running qs k"
  have "map (?f (ps @ [x])) [1..<Suc (length ps)] = map (?f ps) [1..<Suc (length ps)]"
    by (intro map_cong refl) (auto simp: spec_peak_append spec_running_append)
  then have "set (0 # map (?f (ps @ [x])) [1..<Suc (length (ps @ [x]))])
          = insert (?f (ps @ [x]) (Suc (length ps))) (set (0 # map (?f ps) [1..<Suc (length ps)]))"
    by auto
  then show ?thesis
    unfolding dd_so_far_def by (simp only: Max_insert [OF finite_set] max.commute) simp
qed

lemma drawdown_scan_invariant:
  "drawdown_scan ps = \<lparr>peak = spec_peak ps (length ps), max_dd = dd_so_far ps, running = sum_list ps\<rparr>"
proof (induction ps rule: rev_induct)
  case Nil
  show ?case by (simp add: drawdown_scan_def spec_peak_0 dd_so_far_def)
next
  case (snoc x ps)
  have scan: "drawdown_scan (ps @ [x]) = drawdown_step (drawdown_scan ps) x"
    by (simp add: drawdown_scan_def)
  have run: "spec_running (ps @ [x]) (Suc (length ps)) = sum_list ps + x"
    by (simp add: spec_running_def)
  have pk: "spec_peak (ps @ [x]) (Suc (length ps)) = max (spec_peak ps (length ps)) (sum_list ps + x)"
    by (simp add: spec_peak_Suc spec_peak_append run)
  show ?case
    by (simp add: scan snoc.IH dd_so_far_snoc run pk drawdown_step_def Let_def max_def)
qed

lemma dd_so_far_nonempty: "ps \<noteq> [] \<Longrightarrow> dd_so_far ps = spec_max_drawdown ps"
proof -
  assume ne: "ps \<noteq> []"
  let ?A = "set (map (\<lambda>k. spec_peak ps k - spec_running ps k) [1..<Suc (length ps)])"
  have fin: "finite ?A" by simp
  have "0 < length ps" using ne by simp
  then have "1 \<in> set [1..<Suc (length ps)]" by (simp only: set_upt atLeastLessThan_iff) linarith
  then have mem: "spec_peak ps 1 - spec_running ps 1 \<in> ?A"
    unfolding set_map by (rule imageI)
  have neA: "?A \<noteq> {}" using mem by (metis empty_iff)
  have "spec_peak ps 1 - spec_running ps 1 \<le> Max ?A"
    by (rule Max_ge [OF fin mem])
  moreover have "0 \<le> spec_peak ps 1 - spec_running ps 1"
    using spec_peak_ge_running [of 1 ps] by simp
  ultimately have "0 \<le> Max ?A" by linarith
  moreover have "dd_so_far ps = max 0 (Max ?A)"
    unfolding dd_so_far_def using Max_insert [OF fin neA] by simp
  ultimately show ?thesis by (simp add: spec_max_drawdown_def)
qed

text \<open>
  C7. For every non-empty trade list, the \<open>max_drawdown\<close> that \<open>compute_stats\<close> returns
  is, rounded to two decimals, the maximum over all steps of the supplied order of the
  running peak (largest cumulative profit so far, starting at 0) minus the running
  cumulative profit.
\<close>

theorem C7_max_drawdown_refines_spec:
  assumes "trades \<noteq> []"
  shows "\<exists>s. compute_stats trades = Inr (Some s)
           \<and> max_drawdown s = py_round (spec_max_drawdown (map profit trades)) 2"
  using assms
  by (simp add: compute_stats_unfold Let_def drawdown_scan_invariant dd_so_far_nonempty)

theorem C7_max_drawdown_refines_spec_witness:
  "\<exists>s. compute_stats scenario = Inr (Some s) \<and> max_drawdown s = 50"
proof -
  have "spec_max_drawdown [100, - 50, 50, - 20, - 10] = 50"
    by code_simp
  then show ?thesis
    using C7_max_drawdown_refines_spec [of scenario]
    by (auto simp: scenario_def py_round_def)
qed

subsection \<open>Zero-profit trades\<close>

lemma best_l_foldl_mono: "best_l st \<le> best_l (foldl streak_step st ps)"
proof (induction ps arbitrary: st)
  case Nil
  show ?case by simp
next
  case (Cons p ps)
  have "best_l st \<le> best_l (streak_step st p)"
    by (simp add: streak_step_def)
  also have "\<dots> \<le> best_l (foldl streak_step (streak_step st p) ps)"
    by (rule Cons.IH)
  finally show ?case by simp
qed

lemma streak_scan_snoc: "streak_scan (ps @ [p]) = streak_step (streak_scan ps) p"
  by (simp add: streak_scan_def)

lemma streak_scan_append_mono: "best_l (streak_scan ps) \<le> best_l (streak_scan (ps @ qs))"
  by (simp add: streak_scan_def best_l_foldl_mono)

text \<open>
  C3. A trade \<open>t\<close> of profit zero anywhere in the sequence is counted in neither
  \<open>win_count\<close> nor \<open>loss_count\<close>, and \<open>avg_loss\<close> and \<open>gross_loss\<close> are those of the
  other trades; the streak scan takes it as a loss: after \<open>t\<close> the win streak is 0, the
  loss streak is one longer than before, and that streak feeds \<open>max_consec_losses\<close>.
\<close>

theorem C3_zero_profit_trade:
  assumes "profit t = 0"
  shows "\<exists>s. compute_stats (xs @ t # ys) = Inr (Some s)
           \<and> win_count s = length (filter (\<lambda>u. profit u > 0) (xs @ ys))
           \<and> loss_count s = length (filter (\<lambda>u. profit u < 0) (xs @ ys))
           \<and> gross_loss s = py_round \<bar>sum_list (filter (\<lambda>p. p < 0) (map profit (xs @ ys)))\<bar> 2
           \<and> avg_loss s =
               py_round (if filter (\<lambda>p. p < 0) (map profit (xs @ ys)) \<noteq> []
                         then sum_list (filter (\<lambda>p. p < 0) (map profit (xs @ ys)))
                              / real (length (filter (\<lambda>p. p < 0) (map profit (xs @ ys))))
                         else 0) 2
           \<and> streak_scan (map profit (xs @ [t]))
               = \<lparr>best_w = best_w (streak_scan (map profit xs)),
                  best_l = max (best_l (streak_scan (map profit xs)))
                               (cur_l (streak_scan (map profit xs)) + 1),
                  cur_w = 0,
                  cur_l = cur_l (streak_scan (map profit xs)) + 1\<rparr>
           \<and> cur_l (streak_scan (map profit xs)) + 1 \<le> max_consec_losses s"
proof -
  have ne: "xs @ t # ys \<noteq> []" by simp
  have scan: "streak_scan (map profit (xs @ [t]))
               = \<lparr>best_w = best_w (streak_scan (map profit xs)),
                  best_l = max (best_l (streak_scan (map profit xs)))
                               (cur_l (streak_scan (map profit xs)) + 1),
                  cur_w = 0,
                  cur_l = cur_l (streak_scan (map profit xs)) + 1\<rparr>"
    using assms by (simp add: streak_scan_snoc streak_step_def)
  have "best_l (streak_scan (map profit (xs @ [t])))
          \<le> best_l (streak_scan (map profit (xs @ [t]) @ map profit ys))"
    by (rule streak_scan_append_mono)
  then have feeds: "cur_l (streak_scan (map profit xs)) + 1
          \<le> best_l (streak_scan (map profit (xs @ t # ys)))"
    unfolding scan by simp
  show ?thesis
    unfolding compute_stats_unfold [OF ne] Let_def
    using assms scan feeds by (simp add: filter_map_profit)
qed

theorem C3_zero_profit_trade_witness:
  "\<exists>s. compute_stats [zero_trade] = Inr (Some s)
        \<and> win_count s = 0 \<and> loss_count s = 0 \<and> gross_loss s = 0 \<and> avg_loss s = 0
        \<and> max_consec_losses s = 1"
proof -
  have "profit zero_trade = 0" by (simp add: zero_trade_def)
  from C3_zero_profit_trade [OF this, of "[]" "[]"]
  obtain s where s: "compute_stats [zero_trade] = Inr (Some s)" "win_count s = 0"
     "loss_count s = 0" "gross_loss s = 0" "avg_loss s = 0" "1 \<le> max_consec_losses s"
    by (auto simp: streak_scan_def)
  moreover have "max_consec_losses s = 1"
    using s(1) by (auto simp: compute_stats_unfold zero_trade_def Let_def streak_scan_def streak_step_def)
  ultimately show ?thesis by blast
qed

subsection \<open>Division guards\<close>



subsection \<open>Equity curve\<close>

text \<open>No exception leaves \<open>api_stats\<close>, and its report is built from the parts below.\<close>

lemma pairs_step_returns: "\<exists>m. pairs_step prs t = Inr m"
  by (auto simp: pairs_step_def Let_def dict_item_def bind_err_def)

lemma pairs_from_returns: "\<exists>m. pairs_from prs ts = Inr m"
proof (induction ts arbitrary: prs)
  case Nil
  show ?case by simp
next
  case (Cons t ts)
  obtain m where "pairs_step prs t = Inr m" using pairs_step_returns by blast
  then show ?case using Cons.IH [of m] by (simp add: bind_err_def)
qed

lemma compute_stats_returns: "\<exists>r. compute_stats trades = Inr r"
proof (cases "trades = []")
  case True
  then show ?thesis by (simp add: compute_stats_def)
next
  case False
  then show ?thesis by (simp add: compute_stats_unfold Let_def)
qed

lemma api_stats_returns:
  "\<exists>prs st. compute_stats trades = Inr st \<and> pairs trades = Inr prs \<and>
     api_stats trades snaps =
       Inr \<lparr>r_stats = st,
            r_equity_curve = equity_curve snaps,
            r_calendar = calendar trades,
            r_hours = hours trades,
            r_days = days trades,
            r_pairs = prs,
            r_monthly = monthly trades,
            r_trade_count = length trades\<rparr>"
proof -
  obtain st where st: "compute_stats trades = Inr st" using compute_stats_returns by blast
  obtain prs where prs: "pairs trades = Inr prs"
    unfolding pairs_def using pairs_from_returns by blast
  show ?thesis by (simp add: api_stats_def st prs bind_err_def)
qed

text \<open>
  C9. The equity curve of the report has one point per snapshot, in the order of the
  snapshots, and the point at position \<open>i\<close> has the time, balance and equity of snapshot
  \<open>i\<close> unchanged.
\<close>

theorem C9_equity_curve_passthrough:
  "\<exists>r. api_stats trades snaps = Inr r
       \<and> length (r_equity_curve r) = length snaps
       \<and> (\<forall>i < length snaps.
             p_time (r_equity_curve r ! i) = snapshot_time (snaps ! i)
           \<and> p_balance (r_equity_curve r ! i) = balance (snaps ! i)
           \<and> p_equity (r_equity_curve r ! i) = equity (snaps ! i))"
proof -
  obtain prs st where "api_stats trades snaps =
       Inr \<lparr>r_stats = st, r_equity_curve = equity_curve snaps, r_calendar = calendar trades,
            r_hours = hours trades, r_days = days trades, r_pairs = prs,
            r_monthly = monthly trades, r_trade_count = length trades\<rparr>"
    using api_stats_returns by blast
  then show ?thesis by (simp add: equity_curve_def)
qed

theorem C9_equity_curve_passthrough_witness:
  "\<exists>r. api_stats []
          [\<lparr>snap_id = 1, account_id = 1, balance = Some 1000, equity = Some 990,
            snapshot_time = Some ''2024-01-05 10:00:00''\<rparr>,
           \<lparr>snap_id = 2, account_id = 1, balance = Some 1010, equity = None,
            snapshot_time = Some ''2024-01-04 10:00:00''\<rparr>] = Inr r
       \<and> map p_time (r_equity_curve r) = [Some ''2024-01-05 10:00:00'', Some ''2024-01-04 10:00:00'']
       \<and> map p_balance (r_equity_curve r) = [Some 1000, Some 1010]
       \<and> map p_equity (r_equity_curve r) = [Some 990, None]"
proof -
  let ?snaps = "[\<lparr>snap_id = 1, account_id = 1, balance = Some 1000, equity = Some 990,
            snapshot_time = Some ''2024-01-05 10:00:00''\<rparr>,
           \<lparr>snap_id = 2, account_id = 1, balance = Some 1010, equity = None,
            snapshot_time = Some ''2024-01-04 10:00:00''\<rparr>]"
  from C9_equity_curve_passthrough [of "[]" ?snaps]
  obtain r where r: "api_stats [] ?snaps = Inr r" "length (r_equity_curve r) = 2"
     "\<forall>i < 2. p_time (r_equity_curve r ! i) = snapshot_time (?snaps ! i)
           \<and> p_balance (r_equity_curve r ! i) = balance (?snaps ! i)
           \<and> p_equity (r_equity_curve r ! i) = equity (?snaps ! i)"
    by auto
  from r(2) obtain a b where ab: "r_equity_curve r = [a, b]"
    by (metis (no_types) length_0_conv length_Suc_conv numeral_2_eq_2)
  from r(3) have "\<forall>i \<in> {0, 1}. p_time (r_equity_curve r ! i) = snapshot_time (?snaps ! i)
           \<and> p_balance (r_equity_curve r ! i) = balance (?snaps ! i)
           \<and> p_equity (r_equity_curve r ! i) = equity (?snaps ! i)"
    by auto
  with ab r(1) show ?thesis by auto
qed

subsection \<open>Calendar\<close>

lemma cal_step_key:
  "cal_step cal t =
     (case spec_calendar_key t of
        None \<Rightarrow> cal
      | Some d \<Rightarrow> cal(d \<mapsto> py_round (dict_get cal d 0 + profit t) 2))"
  by (simp add: cal_step_def spec_calendar_key_def Let_def split: option.splits)

lemma foldl_cal_step:
  "foldl cal_step cal trades k =
     (let ps = map profit (filter (\<lambda>t. spec_calendar_key t = Some k) trades)
      in if ps = [] then cal k else Some (spec_rounded_sum (dict_get cal k 0) ps))"
proof (induction trades arbitrary: cal)
  case Nil
  show ?case by simp
next
  case (Cons t ts)
  show ?case
  proof (cases "spec_calendar_key t = Some k")
    case True
    then have step: "cal_step cal t = cal(k \<mapsto> py_round (dict_get cal k 0 + profit t) 2)"
      by (simp add: cal_step_key)
    show ?thesis
      using True by (simp add: Cons.IH step Let_def dict_get_def spec_rounded_sum_def)
  next
    case False
    then have "cal_step cal t k = cal k"
      by (auto simp: cal_step_key split: option.splits)
    then show ?thesis
      using False by (simp add: Cons.IH Let_def dict_get_def)
  qed
qed

text \<open>
  C8. The calendar is keyed by the first 10 characters of \<open>close_time\<close>; a trade with
  no \<open>close_time\<close> feeds no bucket; each bucket is the running sum of its trades'
  profits, rounded to two decimals after every contribution. Two trades closed at
  \<open>2024-01-05T10:00:00\<close> with profit 30 and at \<open>2024-01-05T15:00:00\<close> with profit -10 give
  20 under the key \<open>2024-01-05\<close>.
\<close>

theorem C8_calendar_buckets:
  "calendar trades = spec_calendar trades
   \<and> calendar [\<lparr>pair = p1, open_time = o1, close_time = Some ''2024-01-05T10:00:00'', profit = 30\<rparr>,
               \<lparr>pair = p2, open_time = o2, close_time = Some ''2024-01-05T15:00:00'', profit = - 10\<rparr>]
        ''2024-01-05'' = Some 20"
proof
  show "calendar trades = spec_calendar trades"
    by (rule ext) (simp add: calendar_def foldl_cal_step spec_calendar_def dict_get_def)
  show "calendar [\<lparr>pair = p1, open_time = o1, close_time = Some ''2024-01-05T10:00:00'', profit = 30\<rparr>,
               \<lparr>pair = p2, open_time = o2, close_time = Some ''2024-01-05T15:00:00'', profit = - 10\<rparr>]
        ''2024-01-05'' = Some 20"
    by (simp add: calendar_def cal_step_def dict_get_def py_round_def Let_def)
qed

text \<open>
  Two contributions of 0.004 round to 0 one after the other; the trades with no
  \<open>close_time\<close> leave no key.
\<close>

theorem C8_calendar_buckets_witness:
  "calendar [\<lparr>pair = None, open_time = None, close_time = Some ''2024-01-05T10:00:00'', profit = 0.004\<rparr>,
             \<lparr>pair = None, open_time = None, close_time = None, profit = 7\<rparr>,
             \<lparr>pair = None, open_time = None, close_time = Some '''', profit = 7\<rparr>,
             \<lparr>pair = None, open_time = None, close_time = Some ''2024-01-05T15:00:00'', profit = 0.004\<rparr>]
     = [''2024-01-05'' \<mapsto> 0]"
proof -
  let ?ts = "[\<lparr>pair = None, open_time = None, close_time = Some ''2024-01-05T10:00:00'', profit = 0.004\<rparr>,
             \<lparr>pair = None, open_time = None, close_time = None, profit = 7\<rparr>,
             \<lparr>pair = None, open_time = None, close_time = Some '''', profit = 7\<rparr>,
             \<lparr>pair = None, open_time = None, close_time = Some ''2024-01-05T15:00:00'', profit = 0.004\<rparr>]"
  have "calendar ?ts = spec_calendar ?ts"
    using C8_calendar_buckets [of ?ts] by blast
  also have "\<dots> = [''2024-01-05'' \<mapsto> 0]"
    by (rule ext)
       (simp add: spec_calendar_def spec_calendar_key_def spec_rounded_sum_def py_round_def Let_def)
  finally show ?thesis .
qed

section \<open>Properties of the report\<close>

subsection \<open>Evaluation of the timestamp parser\<close>

lemmas strptime_eval =
  strptime_def strptime_format_def re_Y_def re_m_def re_d_def re_H_def re_M_def re_S_def
  match_group_def List.map_filter_def between_def is_digit_def is_space_def lit_def
  py_int_def digit_val_def days_in_month_def month_lengths_def is_leap_def

lemma strptime_garbage: "strptime ''garbage'' = Inl ValueError"
  by (simp add: strptime_eval)

lemma strptime_friday:
  "strptime ''2024-01-05 10:30:00''
     = Inr \<lparr>year = 2024, month = 1, day = 5, hour = 10, minute = 30, second = 0\<rparr>"
  by (simp add: strptime_eval)

lemma weekday_friday:
  "weekday \<lparr>year = 2024, month = 1, day = 5, hour = 10, minute = 30, second = 0\<rparr> = 4"
  "weekday \<lparr>year = 2024, month = Suc 0, day = 5, hour = 10, minute = 30, second = 0\<rparr> = 4"
  by (simp_all add: weekday_def days_before_year_def days_before_month_def month_lengths_def
        is_leap_def)

lemma py_str_numeral:
  "py_str (numeral k) =
     (if numeral k < (10::nat) then [''0123456789'' ! numeral k]
      else py_str (numeral k div 10) @ [''0123456789'' ! (numeral k mod 10)])"
  "py_str 0 = ''0''" "py_str 1 = ''1''" "py_str (Suc 0) = ''1''"
  by (simp_all add: py_str.simps)

lemma upt_24:
  "[0..<24] = [0, 1, 2, 3, 4, 5, 6, 7, 8, 9, 10, 11, 12, 13, 14, 15, 16, 17, 18, 19, 20, 21, 22, 23]"
  by (simp add: upt_rec)

subsection \<open>Hours and days\<close>

lemma hours_init_eq:
  "hours_init =
     [''0'' \<mapsto> 0, ''1'' \<mapsto> 0, ''2'' \<mapsto> 0, ''3'' \<mapsto> 0, ''4'' \<mapsto> 0, ''5'' \<mapsto> 0,
      ''6'' \<mapsto> 0, ''7'' \<mapsto> 0, ''8'' \<mapsto> 0, ''9'' \<mapsto> 0, ''10'' \<mapsto> 0, ''11'' \<mapsto> 0,
      ''12'' \<mapsto> 0, ''13'' \<mapsto> 0, ''14'' \<mapsto> 0, ''15'' \<mapsto> 0, ''16'' \<mapsto> 0, ''17'' \<mapsto> 0,
      ''18'' \<mapsto> 0, ''19'' \<mapsto> 0, ''20'' \<mapsto> 0, ''21'' \<mapsto> 0, ''22'' \<mapsto> 0, ''23'' \<mapsto> 0]"
  by (simp add: hours_init_def upt_24 py_str_numeral)

lemma hours_init_zero: "k \<in> dom hours_init \<Longrightarrow> hours_init k = Some 0"
  by (auto simp: hours_init_eq split: if_splits)

lemma days_init_zero: "k \<in> dom days_init \<Longrightarrow> days_init k = Some 0"
  by (auto simp: days_init_def split: if_splits)

lemma dom_hours_step: "dom (hours_step h t) = dom h"
  by (auto simp: hours_step_def hours_try_def except_pass_def bind_err_def dict_item_def Let_def
        split: option.splits sum.splits if_splits)

lemma dom_days_step: "dom (days_step d t) = dom d"
  by (auto simp: days_step_def days_try_def except_pass_def bind_err_def dict_item_def Let_def
        split: option.splits sum.splits if_splits)

lemma dom_foldl_hours_step: "dom (foldl hours_step h ts) = dom h"
  by (induction ts arbitrary: h) (simp_all add: dom_hours_step)

lemma dom_foldl_days_step: "dom (foldl days_step d ts) = dom d"
  by (induction ts arbitrary: d) (simp_all add: dom_days_step)

lemma hours_step_other: "hour_bucket t \<noteq> Some k \<Longrightarrow> hours_step h t k = h k"
  by (auto simp: hours_step_def hours_try_def except_pass_def bind_err_def dict_item_def Let_def
        hour_bucket_def split: option.splits sum.splits if_splits)

lemma days_step_other: "day_bucket t \<noteq> Some k \<Longrightarrow> days_step d t k = d k"
  by (auto simp: days_step_def days_try_def except_pass_def bind_err_def dict_item_def Let_def
        day_bucket_def split: option.splits sum.splits if_splits)

lemma foldl_hours_step_other:
  "\<forall>t \<in> set ts. hour_bucket t \<noteq> Some k \<Longrightarrow> foldl hours_step h ts k = h k"
  by (induction ts arbitrary: h) (simp_all add: hours_step_other)

lemma foldl_days_step_other:
  "\<forall>t \<in> set ts. day_bucket t \<noteq> Some k \<Longrightarrow> foldl days_step d ts k = d k"
  by (induction ts arbitrary: d) (simp_all add: days_step_other)

lemma hours_step_unparsable:
  "open_time t = Some ot \<Longrightarrow> \<forall>dt. strptime (take 19 ot) \<noteq> Inr dt \<Longrightarrow> hours_step h t = h"
  by (auto simp: hours_step_def hours_try_def except_pass_def bind_err_def
        split: sum.splits)

lemma days_step_unparsable:
  "open_time t = Some ot \<Longrightarrow> \<forall>dt. strptime (take 19 ot) \<noteq> Inr dt \<Longrightarrow> days_step d t = d"
  by (auto simp: days_step_def days_try_def except_pass_def bind_err_def
        split: sum.splits)


lemma dom_hours_init:
  "dom hours_init =
       {''23'', ''22'', ''21'', ''20'', ''19'', ''18'', ''17'', ''16'', ''15'', ''14'', ''13'', ''12'',
        ''11'', ''10'', ''9'', ''8'', ''7'', ''6'', ''5'', ''4'', ''3'', ''2'', ''1'', ''0''}"
  unfolding hours_init_eq by (simp add: insert_commute)

lemma dom_days_init: "dom days_init = {''Mon'', ''Tue'', ''Wed'', ''Thu'', ''Fri'', ''Sat'', ''Sun''}"
  unfolding days_init_def by (simp add: insert_commute)

lemma card_dom_hours_init: "card (dom hours_init) = 24"
  unfolding dom_hours_init by simp

lemma card_dom_days_init: "card (dom days_init) = 7"
  unfolding dom_days_init by simp


text \<open>
  C5. On the empty trade list \<open>compute_stats\<close> returns the empty summary and raises
  nothing. For every trade list the hours mapping has exactly the 24 keys \<open>0\<close> .. \<open>23\<close>
  (listed from \<open>23\<close> down) and the days mapping exactly the 7 keys \<open>Mon\<close> .. \<open>Sun\<close>, and
  a key that no trade contributes to holds 0.
\<close>

theorem C5_empty_input_and_fixed_keys:
  "compute_stats [] = Inr None
   \<and> dom (hours trades) =
       {''23'', ''22'', ''21'', ''20'', ''19'', ''18'', ''17'', ''16'', ''15'', ''14'', ''13'', ''12'',
        ''11'', ''10'', ''9'', ''8'', ''7'', ''6'', ''5'', ''4'', ''3'', ''2'', ''1'', ''0''}
   \<and> card (dom (hours trades)) = 24
   \<and> dom (days trades) = {''Mon'', ''Tue'', ''Wed'', ''Thu'', ''Fri'', ''Sat'', ''Sun''}
   \<and> card (dom (days trades)) = 7
   \<and> (\<forall>k \<in> dom (hours trades).
         (\<forall>t \<in> set trades. hour_bucket t \<noteq> Some k) \<longrightarrow> hours trades k = Some 0)
   \<and> (\<forall>k \<in> dom (days trades).
         (\<forall>t \<in> set trades. day_bucket t \<noteq> Some k) \<longrightarrow> days trades k = Some 0)"
  (is "_ \<and> ?keys \<and> _")
proof -
  have dh: "dom (hours trades) = dom hours_init"
    by (simp add: hours_def dom_foldl_hours_step)
  have dd: "dom (days trades) = dom days_init"
    by (simp add: days_def dom_foldl_days_step)
  have c1: "compute_stats [] = Inr None"
    by (simp add: compute_stats_def)
  have c2: ?keys
    by (simp only: dh dom_hours_init)
  have c3: "card (dom (hours trades)) = 24"
    by (simp only: dh card_dom_hours_init)
  have c4: "dom (days trades) = {''Mon'', ''Tue'', ''Wed'', ''Thu'', ''Fri'', ''Sat'', ''Sun''}"
    by (simp only: dd dom_days_init)
  have c5: "card (dom (days trades)) = 7"
    by (simp only: dd card_dom_days_init)
  have c6: "\<forall>k \<in> dom (hours trades).
         (\<forall>t \<in> set trades. hour_bucket t \<noteq> Some k) \<longrightarrow> hours trades k = Some 0"
  proof (intro ballI impI)
    fix k
    assume k: "k \<in> dom (hours trades)" and no: "\<forall>t \<in> set trades. hour_bucket t \<noteq> Some k"
    have "hours trades k = hours_init k"
      unfolding hours_def by (rule foldl_hours_step_other [OF no])
    also have "\<dots> = Some 0"
      using k dh by (simp add: hours_init_zero)
    finally show "hours trades k = Some 0" .
  qed
  have c7: "\<forall>k \<in> dom (days trades).
         (\<forall>t \<in> set trades. day_bucket t \<noteq> Some k) \<longrightarrow> days trades k = Some 0"
  proof (intro ballI impI)
    fix k
    assume k: "k \<in> dom (days trades)" and no: "\<forall>t \<in> set trades. day_bucket t \<noteq> Some k"
    have "days trades k = days_init k"
      unfolding days_def by (rule foldl_days_step_other [OF no])
    also have "\<dots> = Some 0"
      using k dd by (simp add: days_init_zero)
    finally show "days trades k = Some 0" .
  qed
  from c1 c2 c3 c4 c5 c6 c7 show ?thesis
    by (intro conjI)
qed


text \<open>The buckets of the two example trades.\<close>

lemma hour_bucket_garbage: "hour_bucket garbage_trade = None"
  by (simp add: hour_bucket_def garbage_trade_def strptime_garbage)

lemma day_bucket_garbage: "day_bucket garbage_trade = None"
  by (simp add: day_bucket_def garbage_trade_def strptime_garbage)

lemma hour_bucket_friday: "hour_bucket friday_trade = Some ''10''"
  by (simp add: hour_bucket_def friday_trade_def strptime_friday py_str_numeral)

lemma day_bucket_friday: "day_bucket friday_trade = Some ''Fri''"
  by (simp add: day_bucket_def friday_trade_def strptime_friday weekday_friday list_item_def
        day_names_def)

lemma friday_trade_contributes:
  "hours [garbage_trade, friday_trade] ''10'' = Some 12.5"
  "days [garbage_trade, friday_trade] ''Fri'' = Some 12.5"
  by (simp_all add: hours_def days_def hours_step_def days_step_def hours_try_def days_try_def
        except_pass_def bind_err_def dict_item_def list_item_def day_names_def Let_def
        garbage_trade_def friday_trade_def strptime_garbage strptime_friday weekday_friday
        py_str_numeral hours_init_eq days_init_def py_round_def)

theorem C5_empty_input_and_fixed_keys_witness:
  "compute_stats [] = Inr None
   \<and> card (dom (hours [garbage_trade, friday_trade])) = 24
   \<and> card (dom (days [garbage_trade, friday_trade])) = 7
   \<and> hours [garbage_trade, friday_trade] ''11'' = Some 0
   \<and> days [garbage_trade, friday_trade] ''Mon'' = Some 0"
proof -
  let ?ts = "[garbage_trade, friday_trade]"
  note c5 = C5_empty_input_and_fixed_keys [of ?ts]
  have h: "''11'' \<in> dom (hours ?ts)" using c5 by simp
  have d: "''Mon'' \<in> dom (days ?ts)" using c5 by simp
  have nh: "\<forall>t \<in> set ?ts. hour_bucket t \<noteq> Some ''11''"
    by (simp add: hour_bucket_garbage hour_bucket_friday)
  have nd: "\<forall>t \<in> set ?ts. day_bucket t \<noteq> Some ''Mon''"
    by (simp add: day_bucket_garbage day_bucket_friday)
  from c5 h nh have "hours ?ts ''11'' = Some 0" by blast
  moreover from c5 d nd have "days ?ts ''Mon'' = Some 0" by blast
  ultimately show ?thesis using c5 by blast
qed

subsection \<open>Unparsable \<open>open_time\<close>\<close>

text \<open>The calendar and the monthly mapping are those of the specification.\<close>

lemma calendar_spec: "calendar trades = spec_calendar trades"
  by (rule ext) (simp add: calendar_def foldl_cal_step spec_calendar_def dict_get_def)

lemma monthly_step_key:
  "monthly_step mon t =
     (case spec_monthly_key t of
        None \<Rightarrow> mon
      | Some m \<Rightarrow> mon(m \<mapsto> py_round (dict_get mon m 0 + profit t) 2))"
  by (simp add: monthly_step_def spec_monthly_key_def Let_def split: option.splits)

lemma foldl_monthly_step:
  "foldl monthly_step mon trades k =
     (let ps = map profit (filter (\<lambda>t. spec_monthly_key t = Some k) trades)
      in if ps = [] then mon k else Some (spec_rounded_sum (dict_get mon k 0) ps))"
proof (induction trades arbitrary: mon)
  case Nil
  show ?case by simp
next
  case (Cons t ts)
  show ?case
  proof (cases "spec_monthly_key t = Some k")
    case True
    then have step: "monthly_step mon t = mon(k \<mapsto> py_round (dict_get mon k 0 + profit t) 2)"
      by (simp add: monthly_step_key)
    show ?thesis
      using True by (simp add: Cons.IH step Let_def dict_get_def spec_rounded_sum_def)
  next
    case False
    then have "monthly_step mon t k = mon k"
      by (auto simp: monthly_step_key split: option.splits)
    then show ?thesis
      using False by (simp add: Cons.IH Let_def dict_get_def)
  qed
qed

lemma monthly_spec: "monthly trades = spec_monthly trades"
  by (rule ext) (simp add: monthly_def foldl_monthly_step spec_monthly_def dict_get_def)

text \<open>
  C4. A trade \<open>t\<close> whose \<open>open_time\<close> does not parse and whose \<open>close_time\<close> is not
  empty, anywhere in the sequence: \<open>api_stats\<close> raises nothing; \<open>t\<close> is counted in
  \<open>total_trades\<close> and \<open>trade_count\<close>; the calendar and the monthly mapping of the report
  are those of the specification, and the bucket of \<open>t\<close> in each is the rounded running
  sum of the profits of the bucket's trades before \<open>t\<close>, of \<open>t\<close> itself and of those after
  it; the hours and days mappings are those of the sequence without \<open>t\<close>.
\<close>

theorem C4_unparsable_open_time:
  assumes "open_time t = Some ot"
    and "\<forall>dt. strptime (take 19 ot) \<noteq> Inr dt"
    and "close_time t = Some ct"
    and "ct \<noteq> []"
  shows "\<exists>r s. api_stats (xs @ t # ys) snaps = Inr r
           \<and> r_stats r = Some s
           \<and> total_trades s = length xs + 1 + length ys
           \<and> r_trade_count r = length xs + 1 + length ys
           \<and> r_calendar r = spec_calendar (xs @ t # ys)
           \<and> r_calendar r (take 10 ct) =
               Some (spec_rounded_sum 0
                 (map profit (filter (\<lambda>u. spec_calendar_key u = Some (take 10 ct)) xs)
                  @ profit t
                  # map profit (filter (\<lambda>u. spec_calendar_key u = Some (take 10 ct)) ys)))
           \<and> r_monthly r = spec_monthly (xs @ t # ys)
           \<and> r_monthly r (take 7 ct) =
               Some (spec_rounded_sum 0
                 (map profit (filter (\<lambda>u. spec_monthly_key u = Some (take 7 ct)) xs)
                  @ profit t
                  # map profit (filter (\<lambda>u. spec_monthly_key u = Some (take 7 ct)) ys)))
           \<and> r_hours r = hours (xs @ ys)
           \<and> r_days r = days (xs @ ys)"
proof -
  let ?ts = "xs @ t # ys"
  have ne: "?ts \<noteq> []" by simp
  obtain prs st where st: "compute_stats ?ts = Inr st"
    and r: "api_stats ?ts snaps =
       Inr \<lparr>r_stats = st, r_equity_curve = equity_curve snaps, r_calendar = calendar ?ts,
            r_hours = hours ?ts, r_days = days ?ts, r_pairs = prs,
            r_monthly = monthly ?ts, r_trade_count = length ?ts\<rparr>"
    using api_stats_returns [of ?ts snaps] by blast
  from st obtain s where s: "st = Some s" and tot: "total_trades s = length ?ts"
    unfolding compute_stats_unfold [OF ne] Let_def by auto
  have ck: "spec_calendar_key t = Some (take 10 ct)"
    using assms(3,4) by (simp add: spec_calendar_key_def)
  have mk: "spec_monthly_key t = Some (take 7 ct)"
    using assms(3,4) by (simp add: spec_monthly_key_def)
  have cal: "calendar ?ts (take 10 ct) =
               Some (spec_rounded_sum 0
                 (map profit (filter (\<lambda>u. spec_calendar_key u = Some (take 10 ct)) xs)
                  @ profit t
                  # map profit (filter (\<lambda>u. spec_calendar_key u = Some (take 10 ct)) ys)))"
    by (simp add: calendar_spec spec_calendar_def ck Let_def)
  have mon: "monthly ?ts (take 7 ct) =
               Some (spec_rounded_sum 0
                 (map profit (filter (\<lambda>u. spec_monthly_key u = Some (take 7 ct)) xs)
                  @ profit t
                  # map profit (filter (\<lambda>u. spec_monthly_key u = Some (take 7 ct)) ys)))"
    by (simp add: monthly_spec spec_monthly_def mk Let_def)
  have hrs: "hours ?ts = hours (xs @ ys)"
    using assms(1,2) by (simp add: hours_def hours_step_unparsable)
  have dys: "days ?ts = days (xs @ ys)"
    using assms(1,2) by (simp add: days_def days_step_unparsable)
  show ?thesis
    unfolding r using s tot cal mon hrs dys calendar_spec [of ?ts] monthly_spec [of ?ts]
    by simp
qed

theorem C4_unparsable_open_time_witness:
  "\<exists>r s. api_stats [friday_trade, garbage_trade] [] = Inr r
        \<and> r_stats r = Some s \<and> total_trades s = 2 \<and> r_trade_count r = 2
        \<and> r_calendar r ''2024-01-05'' = Some 25
        \<and> r_monthly r ''2024-01'' = Some 25
        \<and> r_hours r = hours [friday_trade]
        \<and> r_days r = days [friday_trade]"
proof -
  have a1: "open_time garbage_trade = Some ''garbage''"
    and a3: "close_time garbage_trade = Some ''2024-01-05 10:00:00''"
    and p: "profit garbage_trade = 12.5" "profit friday_trade = 12.5"
    by (simp_all add: garbage_trade_def friday_trade_def)
  have a2: "\<forall>dt. strptime (take 19 ''garbage'') \<noteq> Inr dt"
    by (simp add: strptime_garbage)
  have a4: "''2024-01-05 10:00:00'' \<noteq> []" by simp
  have k: "spec_calendar_key friday_trade = Some ''2024-01-05''"
    "spec_monthly_key friday_trade = Some ''2024-01''"
    by (simp_all add: spec_calendar_key_def spec_monthly_key_def friday_trade_def)
  have sum: "spec_rounded_sum 0 [25 / 2, 25 / 2] = 25"
    by (simp add: spec_rounded_sum_def py_round_def Let_def)
  from C4_unparsable_open_time [OF a1 a2 a3 a4, of "[friday_trade]" "[]" "[]"]
  show ?thesis
    by (auto simp: p k sum)
qed

end
